theory Spec2Isabelle
  imports Main
begin

section \<open>The HTTP client of the dashboard front end\<close>

text \<open>
  The client is the axios instance \<^verbatim>\<open>api\<close> of
  \<^verbatim>\<open>src/frontend/scr/pages/dashboard/dashboard.jsx\<close> (from line 366 on): a request
  interceptor, a response interceptor with a success handler and an asynchronous error
  handler, and the two module variables \<^verbatim>\<open>pendingRequests\<close> and \<^verbatim>\<open>isRefreshing\<close>.

  JavaScript runs the handlers on one thread. A handler runs without interruption up to
  its next \<^verbatim>\<open>await\<close>, so the model has one atomic step per stretch of code between two
  suspension points, and the network is an environment that chooses the order of the
  events.
\<close>

subsection \<open>JavaScript values\<close>

text \<open>An entry of a list-valued \<^verbatim>\<open>detail\<close>: the code reads \<^verbatim>\<open>err.loc\<close> and \<^verbatim>\<open>err.msg\<close>.\<close>

record verr =
  loc :: "string list option"
  msg :: "string option"

text \<open>
  The values the code reads from a response body: \<^verbatim>\<open>undefined\<close>, a string or an array
  of field errors.
\<close>

datatype jsval = Undefined | Str string | Arr "verr list"

text \<open>JavaScript truthiness: the empty string is falsy, every array is truthy.\<close>

fun truthy :: "jsval \<Rightarrow> bool" where
  "truthy Undefined = False"
| "truthy (Str s) = (s \<noteq> [])"
| "truthy (Arr es) = True"

text \<open>The operator \<^verbatim>\<open>a || b\<close>.\<close>

definition js_or :: "jsval \<Rightarrow> jsval \<Rightarrow> jsval" where
  "js_or a b = (if truthy a then a else b)"

text \<open>A value inside a template literal: \<^verbatim>\<open>undefined\<close> prints as that word.\<close>

fun js_str :: "string option \<Rightarrow> string" where
  "js_str None = ''undefined''"
| "js_str (Some s) = s"

text \<open>\<^verbatim>\<open>Array.prototype.join\<close>.\<close>

fun js_join :: "string \<Rightarrow> string list \<Rightarrow> string" where
  "js_join sep [] = []"
| "js_join sep [x] = x"
| "js_join sep (x # y # ys) = x @ sep @ js_join sep (y # ys)"

subsection \<open>localStorage\<close>

type_synonym storage = "string \<rightharpoonup> string"

definition getItem :: "storage \<Rightarrow> string \<Rightarrow> string option" where
  "getItem ls k = ls k"

definition setItem :: "storage \<Rightarrow> string \<Rightarrow> string \<Rightarrow> storage" where
  "setItem ls k v = ls(k \<mapsto> v)"

definition removeItem :: "storage \<Rightarrow> string \<Rightarrow> storage" where
  "removeItem ls k = ls(k := None)"

text \<open>
  Truthiness of what \<^verbatim>\<open>getItem\<close> returns (\<^verbatim>\<open>null\<close> or a string), as tested by
  \<^verbatim>\<open>if (token)\<close>, \<^verbatim>\<open>if (companyId)\<close> and \<^verbatim>\<open>if (!refreshToken)\<close>.
\<close>

fun present :: "string option \<Rightarrow> bool" where
  "present None = False"
| "present (Some s) = (s \<noteq> [])"

subsection \<open>Requests, responses and errors\<close>

text \<open>
  A request config. \<open>retry\<close> is the property \<^verbatim>\<open>_retry\<close> that the error handler stamps on
  a config; \<open>silent\<close> is read by the success handler.
\<close>

record config =
  url :: string
  http_method :: string
  headers :: "string \<rightharpoonup> string"
  payload :: string
  silent :: bool
  retry :: bool

text \<open>
  A response body as far as the handlers read it: the fields \<^verbatim>\<open>detail\<close> and
  \<^verbatim>\<open>message\<close>. A body that is \<^verbatim>\<open>null\<close> is \<open>None\<close> below: reading a field of it throws.
\<close>

record body =
  detail :: jsval
  message :: jsval

record response =
  status :: nat
  data :: "body option"
  res_config :: config

text \<open>The error axios hands to the error handler: \<^verbatim>\<open>error.config\<close>, \<^verbatim>\<open>error.response\<close>.\<close>

record axios_error =
  err_config :: config
  err_response :: "response option"

text \<open>The body of a fulfilled \<^verbatim>\<open>POST /api/v1/auth/refresh\<close>.\<close>

record refresh_body =
  access_token :: "string option"
  refresh_token :: "string option"

datatype toast = ToastSuccess jsval nat | ToastError jsval

text \<open>
  What a handler's promise is rejected with: the axios error it was given, the
  \<^verbatim>\<open>Error('No refresh token')\<close> of the guard, the error of the refresh call (its status,
  or \<open>None\<close> when there was no response), or a \<^verbatim>\<open>TypeError\<close> from reading a field of
  \<^verbatim>\<open>null\<close>.
\<close>

datatype failure =
    AxiosFailure axios_error
  | NoRefreshToken
  | RefreshFailure "nat option"
  | TypeError

text \<open>
  What becomes of the promise a step is about: the response is returned, the promise is
  rejected, it is parked in \<^verbatim>\<open>pendingRequests\<close>, the handler is suspended at the
  \<^verbatim>\<open>await\<close> of the refresh call, or the promise now follows a new dispatch of the request.
\<close>

datatype outcome =
    Returned response
  | Rejected failure
  | Queued
  | Suspended
  | Redispatched
  | Dispatched
  | Stray

subsection \<open>The state of the page\<close>

text \<open>
  \<open>pendingRequests\<close> holds, for each queued callback, the \<^verbatim>\<open>originalRequest\<close> its closure
  captured. \<open>driver\<close> is the \<^verbatim>\<open>originalRequest\<close> of the handler suspended at the refresh
  call. \<open>sent\<close> lists the configs that left the request interceptor, \<open>refresh_posts\<close> the
  \<^verbatim>\<open>refresh_token\<close> of each refresh call, both oldest first. \<open>defaults_headers\<close> is
  \<^verbatim>\<open>api.defaults.headers\<close>: the headers given to \<^verbatim>\<open>axios.create\<close> (lines 372 to 375) and
  the \<^verbatim>\<open>Authorization\<close> that line 457 adds.
\<close>

record world =
  localStorage :: storage
  pendingRequests :: "config list"
  isRefreshing :: bool
  defaults_headers :: "string \<rightharpoonup> string"
  location_href :: "string option"
  toasts :: "toast list"
  next_uuid :: nat
  sent :: "config list"
  refresh_posts :: "string list"
  driver :: "config option"

definition toast_error :: "world \<Rightarrow> jsval \<Rightarrow> world" where
  "toast_error w v = w\<lparr>toasts := toasts w @ [ToastError v]\<rparr>"

subsection \<open>The request interceptor (lines 385 to 402)\<close>

definition set_header :: "config \<Rightarrow> string \<Rightarrow> string \<Rightarrow> config" where
  "set_header cfg k v = cfg\<lparr>headers := (headers cfg)(k \<mapsto> v)\<rparr>"

text \<open>\<open>uuid\<close> is the value \<^verbatim>\<open>crypto.randomUUID()\<close> returns in this call.\<close>

definition request_interceptor :: "storage \<Rightarrow> string \<Rightarrow> config \<Rightarrow> config" where
  "request_interceptor ls uuid cfg =
     (let token = getItem ls ''access_token'';
          companyId = getItem ls ''current_company_id'';
          cfg1 = (if present token
                  then set_header cfg ''Authorization'' (''Bearer '' @ js_str token)
                  else cfg);
          cfg2 = (if present companyId
                  then set_header cfg1 ''X-Company-Id'' (js_str companyId)
                  else cfg1)
      in set_header cfg2 ''X-Request-ID'' uuid)"

text \<open>
  A call \<^verbatim>\<open>api(config)\<close>. Before the request interceptor runs, axios merges the headers
  of the instance defaults under those of the config: a header the config carries wins,
  every other default is added. The merged config passes through the request interceptor
  and goes to the transport. \<open>randomUUID\<close> is the sequence of values that
  \<^verbatim>\<open>crypto.randomUUID()\<close> returns, the n-th call giving \<open>randomUUID n\<close>. The config axios
  builds for a repeated call carries the properties of the config it is given,
  \<^verbatim>\<open>_retry\<close> among them. The refresh call of line 448 is made with the bare \<^verbatim>\<open>axios\<close>,
  not with \<^verbatim>\<open>api\<close>: neither the interceptor nor the instance defaults apply to it.
\<close>

definition merge_defaults :: "(string \<rightharpoonup> string) \<Rightarrow> config \<Rightarrow> config" where
  "merge_defaults dh cfg = cfg\<lparr>headers := dh ++ headers cfg\<rparr>"

definition outgoing :: "storage \<Rightarrow> (string \<rightharpoonup> string) \<Rightarrow> string \<Rightarrow> config \<Rightarrow> config" where
  "outgoing ls dh uuid cfg = request_interceptor ls uuid (merge_defaults dh cfg)"

definition api :: "(nat \<Rightarrow> string) \<Rightarrow> world \<Rightarrow> config \<Rightarrow> world" where
  "api randomUUID w cfg =
     w\<lparr>sent := sent w @
         [outgoing (localStorage w) (defaults_headers w) (randomUUID (next_uuid w)) cfg],
       next_uuid := Suc (next_uuid w)\<rparr>"

subsection \<open>The success handler (lines 410 to 416)\<close>

text \<open>\<^verbatim>\<open>response.data?.message\<close>: the optional chaining gives \<^verbatim>\<open>undefined\<close> on no body.\<close>

fun data_message :: "body option \<Rightarrow> jsval" where
  "data_message None = Undefined"
| "data_message (Some b) = message b"

definition on_fulfilled :: "world \<Rightarrow> response \<Rightarrow> world \<times> outcome" where
  "on_fulfilled w res =
     (if truthy (data_message (data res)) \<and> \<not> silent (res_config res)
      then (w\<lparr>toasts := toasts w @ [ToastSuccess (data_message (data res)) 3000]\<rparr>,
            Returned res)
      else (w, Returned res))"

subsection \<open>The error handler (lines 417 to 522)\<close>

text \<open>One line of a list-valued 422 detail: \<^verbatim>\<open>`${err.loc?.join('.')}: ${err.msg}`\<close>.\<close>

definition validation_line :: "verr \<Rightarrow> string" where
  "validation_line e = js_str (map_option (js_join ''.'') (loc e)) @ '': '' @ js_str (msg e)"

text \<open>\<^verbatim>\<open>data.detail\<close>, which throws a \<^verbatim>\<open>TypeError\<close> (here \<open>None\<close>) when \<^verbatim>\<open>data\<close> is \<^verbatim>\<open>null\<close>.\<close>

fun data_detail :: "body option \<Rightarrow> jsval option" where
  "data_detail None = None"
| "data_detail (Some b) = Some (detail b)"

text \<open>
  The \<^verbatim>\<open>switch (status)\<close> of lines 484 to 519: the notifications it emits, or \<open>None\<close>
  when it throws.
\<close>

definition status_switch :: "nat \<Rightarrow> body option \<Rightarrow> toast list option" where
  "status_switch st d =
     (if st = 400 then
        map_option (\<lambda>x. [ToastError (js_or x (Str ''Bad request''))]) (data_detail d)
      else if st = 403 then
        Some [ToastError (Str ''You do not have permission to perform this action'')]
      else if st = 404 then
        Some [ToastError (Str ''Resource not found'')]
      else if st = 422 then
        map_option (\<lambda>x.
          if truthy x
          then (case x of
                  Arr errs \<Rightarrow> map (\<lambda>e. ToastError (Str (validation_line e))) errs
                | _ \<Rightarrow> [ToastError x])
          else []) (data_detail d)
      else if st = 429 then
        Some [ToastError (Str ''Too many requests. Please slow down.'')]
      else if st = 500 then
        Some [ToastError (Str ''Internal server error'')]
      else if st = 502 \<or> st = 503 \<or> st = 504 then
        Some [ToastError (Str ''Service temporarily unavailable'')]
      else
        map_option (\<lambda>x. [ToastError (js_or x (Str ''An error occurred''))]) (data_detail d))"

text \<open>The \<^verbatim>\<open>finally\<close> block (line 479); the handler is no longer suspended.\<close>

definition refresh_finally :: "world \<Rightarrow> world" where
  "refresh_finally w = w\<lparr>isRefreshing := False, driver := None\<rparr>"

text \<open>
  The \<^verbatim>\<open>catch (refreshError)\<close> block (lines 466 to 477), followed by \<^verbatim>\<open>finally\<close>.
  Assigning \<^verbatim>\<open>window.location.href\<close> starts a navigation; the script goes on running
  until the page unloads, and so does the model.
\<close>

definition refresh_catch :: "world \<Rightarrow> failure \<Rightarrow> world \<times> outcome" where
  "refresh_catch w refreshError =
     (let ls1 = removeItem (localStorage w) ''access_token'';
          ls2 = removeItem ls1 ''refresh_token'';
          ls3 = removeItem ls2 ''user'';
          ls4 = removeItem ls3 ''current_company_id'';
          w1 = w\<lparr>localStorage := ls4, location_href := Some ''/login''\<rparr>;
          w2 = toast_error w1 (Str ''Session expired. Please login again.'')
      in (refresh_finally w2, Rejected refreshError))"

text \<open>
  The handler from its start to its first suspension point or its return. On an
  un-retried 401 it parks the request when a refresh is in flight; otherwise it marks the
  request, raises the flag and, when a refresh token is stored, posts the refresh call and
  suspends.
\<close>

definition on_rejected :: "world \<Rightarrow> axios_error \<Rightarrow> world \<times> outcome" where
  "on_rejected w error =
     (let originalRequest = err_config error in
      case err_response error of
        None \<Rightarrow>
          (toast_error w (Str ''Network error. Please check your connection.''),
           Rejected (AxiosFailure error))
      | Some r \<Rightarrow>
          if status r = 401 \<and> \<not> retry originalRequest then
            if isRefreshing w then
              (w\<lparr>pendingRequests := pendingRequests w @ [originalRequest]\<rparr>, Queued)
            else
              let originalRequest1 = originalRequest\<lparr>retry := True\<rparr>;
                  w1 = w\<lparr>isRefreshing := True\<rparr>;
                  refreshToken = getItem (localStorage w1) ''refresh_token''
              in if \<not> present refreshToken then refresh_catch w1 NoRefreshToken
                 else (w1\<lparr>refresh_posts := refresh_posts w1 @ [js_str refreshToken],
                          driver := Some originalRequest1\<rparr>, Suspended)
          else
            (case status_switch (status r) (data r) of
               None \<Rightarrow> (w, Rejected TypeError)
             | Some ts \<Rightarrow> (w\<lparr>toasts := toasts w @ ts\<rparr>, Rejected (AxiosFailure error))))"

text \<open>
  The handler resumed by a fulfilled refresh call (lines 452 to 465, then \<^verbatim>\<open>finally\<close>).
  Destructuring a \<^verbatim>\<open>null\<close> body throws inside the \<^verbatim>\<open>try\<close>. Each queued callback calls
  \<^verbatim>\<open>api\<close> on the request it captured, in queue order; the driver's request follows.
\<close>

definition refresh_fulfilled ::
  "(nat \<Rightarrow> string) \<Rightarrow> world \<Rightarrow> config \<Rightarrow> refresh_body option \<Rightarrow> world \<times> outcome" where
  "refresh_fulfilled randomUUID w originalRequest d =
     (case d of
        None \<Rightarrow> refresh_catch w TypeError
      | Some b \<Rightarrow>
          let ls1 = setItem (localStorage w) ''access_token'' (js_str (access_token b));
              ls2 = setItem ls1 ''refresh_token'' (js_str (refresh_token b));
              bearer = ''Bearer '' @ js_str (access_token b);
              w1 = w\<lparr>localStorage := ls2,
                     defaults_headers := (defaults_headers w)(''Authorization'' \<mapsto> bearer)\<rparr>;
              originalRequest1 = set_header originalRequest ''Authorization'' bearer;
              w2 = fold (\<lambda>cfg v. api randomUUID v cfg) (pendingRequests w1) w1;
              w3 = w2\<lparr>pendingRequests := []\<rparr>;
              w4 = api randomUUID w3 originalRequest1
          in (refresh_finally w4, Redispatched))"

subsection \<open>Events and runs\<close>

text \<open>
  The environment's moves: a caller calls \<^verbatim>\<open>api(config)\<close>; a dispatched request is
  answered with a 2xx response or fails; the refresh call in flight is fulfilled or
  rejected. A refresh answer with no handler suspended cannot occur and changes nothing.
\<close>

datatype event =
    Call config
  | Fulfilled response
  | Failed axios_error
  | RefreshFulfilled "refresh_body option"
  | RefreshRejected "nat option"

fun step :: "(nat \<Rightarrow> string) \<Rightarrow> world \<Rightarrow> event \<Rightarrow> world \<times> outcome" where
  "step g w (Call cfg) = (api g w cfg, Dispatched)"
| "step g w (Fulfilled res) = on_fulfilled w res"
| "step g w (Failed e) = on_rejected w e"
| "step g w (RefreshFulfilled d) =
     (case driver w of None \<Rightarrow> (w, Stray) | Some cfg \<Rightarrow> refresh_fulfilled g w cfg d)"
| "step g w (RefreshRejected e) =
     (case driver w of None \<Rightarrow> (w, Stray) | Some cfg \<Rightarrow> refresh_catch w (RefreshFailure e))"

fun run :: "(nat \<Rightarrow> string) \<Rightarrow> world \<Rightarrow> event list \<Rightarrow> world \<times> outcome list" where
  "run g w [] = (w, [])"
| "run g w (e # es) =
     (case step g w e of (w1, out) \<Rightarrow>
        (case run g w1 es of (w2, outs) \<Rightarrow> (w2, out # outs)))"

subsection \<open>A sample page\<close>

text \<open>
  Concrete values for the examples below: a page just loaded with the session
  \<open>{A1, R1}\<close> of company 7 in localStorage, a sequence of request ids, a GET request as a
  caller passes it to \<^verbatim>\<open>api\<close>, and the failure of a request with a given status.
\<close>

definition page0 :: world where
  "page0 =
     \<lparr>localStorage =
        [''access_token'' \<mapsto> ''A1'', ''refresh_token'' \<mapsto> ''R1'', ''current_company_id'' \<mapsto> ''7''],
      pendingRequests = [], isRefreshing = False,
      defaults_headers =
        [''Content-Type'' \<mapsto> ''application/json'', ''X-Requested-With'' \<mapsto> ''XMLHttpRequest''],
      location_href = None, toasts = [], next_uuid = 0, sent = [], refresh_posts = [],
      driver = None\<rparr>"

definition uuid0 :: "nat \<Rightarrow> string" where
  "uuid0 n = replicate n (CHR ''u'')"

definition get_request :: "string \<Rightarrow> config" where
  "get_request u =
     \<lparr>url = u, http_method = ''get'', headers = Map.empty, payload = [], silent = False,
      retry = False\<rparr>"

definition failed_with :: "nat \<Rightarrow> jsval \<Rightarrow> config \<Rightarrow> axios_error" where
  "failed_with st d cfg =
     \<lparr>err_config = cfg,
      err_response =
        Some \<lparr>status = st, data = Some \<lparr>detail = d, message = Undefined\<rparr>, res_config = cfg\<rparr>\<rparr>"

definition renewed :: "string \<Rightarrow> string \<Rightarrow> event" where
  "renewed a r = RefreshFulfilled (Some \<lparr>access_token = Some a, refresh_token = Some r\<rparr>)"

definition dispatched :: "nat \<Rightarrow> string \<Rightarrow> config" where
  "dispatched n u =
     outgoing (localStorage page0) (defaults_headers page0) (uuid0 n) (get_request u)"

definition replayed :: "nat \<Rightarrow> string \<Rightarrow> string \<Rightarrow> config" where
  "replayed n a u =
     outgoing ((localStorage page0)(''access_token'' \<mapsto> a))
       ((defaults_headers page0)(''Authorization'' \<mapsto> ''Bearer '' @ a)) (uuid0 n)
       (dispatched 1 u)"

text \<open>
  \<open>dispatched n u\<close> is the GET request for \<open>u\<close> as the n-th call of \<^verbatim>\<open>api\<close> on \<open>page0\<close>
  sends it; \<open>replayed n a u\<close> is the second request of \<open>page0\<close> as the n-th call sends it
  again once the access token is \<open>a\<close>.
\<close>

subsection \<open>Vocabulary of the properties\<close>

text \<open>A request without its headers: what a replay keeps of the original.\<close>

definition descriptor :: "config \<Rightarrow> config" where
  "descriptor cfg = cfg\<lparr>headers := Map.empty\<rparr>"

text \<open>A failure the handler takes for an expired token: status 401 on an unmarked request.\<close>

definition expired :: "axios_error \<Rightarrow> bool" where
  "expired e =
     (case err_response e of None \<Rightarrow> False
      | Some r \<Rightarrow> status r = 401 \<and> \<not> retry (err_config e))"

text \<open>No refresh token is stored and no refresh call is in flight.\<close>

definition signed_out :: "world \<Rightarrow> bool" where
  "signed_out w =
     (\<not> present (getItem (localStorage w) ''refresh_token'') \<and> \<not> isRefreshing w \<and> driver w = None)"

text \<open>The handler of a failed request rejected its promise in the same step.\<close>

fun fails_fast :: "event \<Rightarrow> outcome \<Rightarrow> bool" where
  "fails_fast (Failed e) (Rejected f) = True"
| "fails_fast (Failed e) out = False"
| "fails_fast ev out = True"

text \<open>
  The request ids of everything sent so far, and the statement that they are the first
  \<open>next_uuid w\<close> values of the generator, in order.
\<close>

definition trace_ids :: "world \<Rightarrow> string option list" where
  "trace_ids w = map (\<lambda>c. headers c ''X-Request-ID'') (sent w)"

definition fresh_ids :: "(nat \<Rightarrow> string) \<Rightarrow> world \<Rightarrow> bool" where
  "fresh_ids g w = (trace_ids w = map (\<lambda>i. Some (g i)) [0..<next_uuid w])"




section \<open>Properties\<close>

subsection \<open>Runs, and the calls a fulfilled refresh makes\<close>

lemma fst_run_Cons: "fst (run g w (ev # evs)) = fst (run g (fst (step g w ev)) evs)"
  by (simp split: prod.splits)

lemma snd_run_Cons:
  "snd (run g w (ev # evs)) = snd (step g w ev) # snd (run g (fst (step g w ev)) evs)"
  by (simp split: prod.splits)

text \<open>The queued callbacks are called in queue order, each with the next request id.\<close>

lemma fold_api:
  "fold (\<lambda>cfg v. api g v cfg) cs w =
     w\<lparr>sent := sent w @ map2 (\<lambda>i x. outgoing (localStorage w) (defaults_headers w) (g i) x)
                         [next_uuid w ..< next_uuid w + length cs] cs,
       next_uuid := next_uuid w + length cs\<rparr>"
proof (induction cs arbitrary: w)
  case Nil
  show ?case by simp
next
  case (Cons c cs)
  have "fold (\<lambda>cfg v. api g v cfg) (c # cs) w = fold (\<lambda>cfg v. api g v cfg) cs (api g w c)"
    by simp
  also have "\<dots> = (api g w c)\<lparr>sent := sent (api g w c) @
        map2 (\<lambda>i x. outgoing (localStorage (api g w c)) (defaults_headers (api g w c)) (g i) x)
          [next_uuid (api g w c) ..< next_uuid (api g w c) + length cs] cs,
       next_uuid := next_uuid (api g w c) + length cs\<rparr>"
    by (rule Cons.IH)
  finally show ?case
    by (simp add: api_def upt_conv_Cons del: upt_Suc)
qed

text \<open>What a fulfilled refresh call with a body leaves behind, field by field.\<close>

lemma refresh_fulfilled_Some:
  "refresh_fulfilled g w drv (Some b) =
     (w\<lparr>localStorage :=
          setItem (setItem (localStorage w) ''access_token'' (js_str (access_token b)))
            ''refresh_token'' (js_str (refresh_token b)),
        defaults_headers :=
          (defaults_headers w)(''Authorization'' \<mapsto> ''Bearer '' @ js_str (access_token b)),
        sent := sent w @
          map2 (\<lambda>i x. outgoing
                  (setItem (setItem (localStorage w) ''access_token'' (js_str (access_token b)))
                     ''refresh_token'' (js_str (refresh_token b)))
                  ((defaults_headers w)(''Authorization'' \<mapsto> ''Bearer '' @ js_str (access_token b)))
                  (g i) x)
            [next_uuid w ..< next_uuid w + length (pendingRequests w) + 1]
            (pendingRequests w @
               [set_header drv ''Authorization'' (''Bearer '' @ js_str (access_token b))]),
        next_uuid := next_uuid w + length (pendingRequests w) + 1,
        pendingRequests := [],
        isRefreshing := False,
        driver := None\<rparr>,
      Redispatched)"
  by (simp add: refresh_fulfilled_def Let_def fold_api)
    (simp add: api_def refresh_finally_def)

lemma refresh_fulfilled_new_sent:
  "drop (length (sent w)) (sent (fst (refresh_fulfilled g w drv (Some b))))
     = map2 (\<lambda>i x. outgoing
                  (setItem (setItem (localStorage w) ''access_token'' (js_str (access_token b)))
                     ''refresh_token'' (js_str (refresh_token b)))
                  ((defaults_headers w)(''Authorization'' \<mapsto> ''Bearer '' @ js_str (access_token b)))
                  (g i) x)
         [next_uuid w ..< next_uuid w + length (pendingRequests w) + 1]
         (pendingRequests w @
            [set_header drv ''Authorization'' (''Bearer '' @ js_str (access_token b))])"
  by (simp add: refresh_fulfilled_Some)

lemma refresh_fulfilled_frame:
  "snd (refresh_fulfilled g w drv (Some b)) = Redispatched
   \<and> refresh_posts (fst (refresh_fulfilled g w drv (Some b))) = refresh_posts w
   \<and> pendingRequests (fst (refresh_fulfilled g w drv (Some b))) = []
   \<and> \<not> isRefreshing (fst (refresh_fulfilled g w drv (Some b)))"
  unfolding refresh_fulfilled_Some by simp

lemma descriptor_interceptor: "descriptor (request_interceptor ls u cfg) = descriptor cfg"
  by (simp add: descriptor_def request_interceptor_def set_header_def Let_def)

lemma descriptor_outgoing: "descriptor (outgoing ls dh u cfg) = descriptor cfg"
  by (simp add: outgoing_def descriptor_interceptor) (simp add: descriptor_def merge_defaults_def)

lemma descriptor_set_header: "descriptor (set_header c k v) = descriptor c"
  by (simp add: descriptor_def set_header_def)

lemma descriptor_map2:
  "length ns = length cs \<Longrightarrow>
     map descriptor (map2 (\<lambda>i x. outgoing ls dh (g i) x) ns cs) = map descriptor cs"
  by (induction ns cs rule: list_induct2) (simp_all add: descriptor_outgoing)

lemma refresh_fulfilled_replays:
  "map descriptor (drop (length (sent w)) (sent (fst (refresh_fulfilled g w drv (Some b)))))
     = map descriptor (pendingRequests w @ [drv])"
proof -
  define ls where "ls = setItem (setItem (localStorage w) ''access_token'' (js_str (access_token b)))
                     ''refresh_token'' (js_str (refresh_token b))"
  define dh where "dh = (defaults_headers w)(''Authorization'' \<mapsto> ''Bearer '' @ js_str (access_token b))"
  define ns where "ns = [next_uuid w ..< next_uuid w + length (pendingRequests w) + 1]"
  define cs where "cs = pendingRequests w @
               [set_header drv ''Authorization'' (''Bearer '' @ js_str (access_token b))]"
  have len: "length ns = length cs"
    by (simp add: ns_def cs_def)
  have "drop (length (sent w)) (sent (fst (refresh_fulfilled g w drv (Some b))))
          = map2 (\<lambda>i x. outgoing ls dh (g i) x) ns cs"
    unfolding refresh_fulfilled_new_sent ls_def dh_def ns_def cs_def by simp
  then have "map descriptor (drop (length (sent w)) (sent (fst (refresh_fulfilled g w drv (Some b)))))
          = map descriptor (map2 (\<lambda>i x. outgoing ls dh (g i) x) ns cs)"
    by simp
  also have "\<dots> = map descriptor cs"
    using len by (rule descriptor_map2)
  also have "\<dots> = map descriptor (pendingRequests w @ [drv])"
    by (simp add: cs_def descriptor_set_header)
  finally show ?thesis .
qed

lemma bearer_interceptor:
  "present (getItem ls ''access_token'') \<Longrightarrow>
     headers (request_interceptor ls u cfg) ''Authorization''
       = Some (''Bearer '' @ js_str (getItem ls ''access_token''))"
  by (simp add: request_interceptor_def set_header_def Let_def)

lemma bearer_map2:
  "present (getItem ls ''access_token'') \<Longrightarrow>
     list_all (\<lambda>c. headers c ''Authorization'' = Some (''Bearer '' @ js_str (getItem ls ''access_token'')))
       (map2 (\<lambda>i x. outgoing ls dh (g i) x) ns cs)"
  by (auto simp: list_all_iff outgoing_def bearer_interceptor)

lemma refresh_fulfilled_bearer:
  assumes "a \<noteq> []"
  shows "list_all (\<lambda>c. headers c ''Authorization'' = Some (''Bearer '' @ a))
           (drop (length (sent w)) (sent (fst (refresh_fulfilled g w drv
              (Some \<lparr>access_token = Some a, refresh_token = Some r\<rparr>)))))"
proof -
  define ls where "ls = setItem (setItem (localStorage w) ''access_token'' a) ''refresh_token'' r"
  define dh where "dh = (defaults_headers w)(''Authorization'' \<mapsto> ''Bearer '' @ a)"
  have tok: "getItem ls ''access_token'' = Some a"
    by (simp add: ls_def getItem_def setItem_def)
  then have p: "present (getItem ls ''access_token'')"
    using assms by simp
  have "list_all (\<lambda>c. headers c ''Authorization'' = Some (''Bearer '' @ js_str (getItem ls ''access_token'')))
          (map2 (\<lambda>i x. outgoing ls dh (g i) x)
             [next_uuid w ..< next_uuid w + length (pendingRequests w) + 1]
             (pendingRequests w @ [set_header drv ''Authorization'' (''Bearer '' @ a)]))"
    using p by (rule bearer_map2)
  then have "list_all (\<lambda>c. headers c ''Authorization'' = Some (''Bearer '' @ a))
          (map2 (\<lambda>i x. outgoing ls dh (g i) x)
             [next_uuid w ..< next_uuid w + length (pendingRequests w) + 1]
             (pendingRequests w @ [set_header drv ''Authorization'' (''Bearer '' @ a)]))"
    by (simp only: tok js_str.simps)
  then show ?thesis
    unfolding refresh_fulfilled_new_sent ls_def dh_def by simp
qed

text \<open>Fields and headers of a request as \<^verbatim>\<open>api\<close> sends it, and of the sample values.\<close>

lemma sent_api:
  "sent (api g w cfg) = sent w @ [outgoing (localStorage w) (defaults_headers w) (g (next_uuid w)) cfg]"
  by (simp add: api_def)

lemma outgoing_fields:
  "url (outgoing ls dh u cfg) = url cfg"
  "retry (outgoing ls dh u cfg) = retry cfg"
  "url (set_header cfg k v) = url cfg"
  "retry (set_header cfg k v) = retry cfg"
  by (simp_all add: outgoing_def merge_defaults_def request_interceptor_def set_header_def Let_def)

lemma outgoing_headers:
  "headers (outgoing ls dh u cfg) ''Authorization'' =
     (if present (getItem ls ''access_token'')
      then Some (''Bearer '' @ js_str (getItem ls ''access_token''))
      else (dh ++ headers cfg) ''Authorization'')"
  "headers (outgoing ls dh u cfg) ''X-Company-Id'' =
     (if present (getItem ls ''current_company_id'')
      then Some (js_str (getItem ls ''current_company_id''))
      else (dh ++ headers cfg) ''X-Company-Id'')"
  "headers (outgoing ls dh u cfg) ''X-Request-ID'' = Some u"
  by (simp_all add: outgoing_def merge_defaults_def request_interceptor_def set_header_def Let_def)

lemma outgoing_other_headers:
  "headers (outgoing ls dh u cfg) |` (- {''Authorization'', ''X-Company-Id'', ''X-Request-ID''})
     = (dh ++ headers cfg) |` (- {''Authorization'', ''X-Company-Id'', ''X-Request-ID''})"
  by (rule ext)
    (simp add: outgoing_def merge_defaults_def request_interceptor_def set_header_def Let_def
       restrict_map_def)

lemma page0_fields:
  "isRefreshing page0 = False" "pendingRequests page0 = []" "sent page0 = []"
  "next_uuid page0 = 0" "refresh_posts page0 = []" "driver page0 = None"
  "toasts page0 = []" "location_href page0 = None"
  "localStorage page0 =
     [''access_token'' \<mapsto> ''A1'', ''refresh_token'' \<mapsto> ''R1'', ''current_company_id'' \<mapsto> ''7'']"
  by (simp_all add: page0_def)

lemma dispatched_fields:
  "url (get_request u) = u"
  "retry (get_request u) = False"
  "url (dispatched n u) = u"
  "retry (dispatched n u) = False"
  "headers (dispatched n u) ''Authorization'' = Some ''Bearer A1''"
  "headers (dispatched n u) ''X-Company-Id'' = Some ''7''"
  by (simp_all add: dispatched_def outgoing_def merge_defaults_def request_interceptor_def
        set_header_def get_request_def page0_def getItem_def Let_def)

lemma replayed_fields: "retry (replayed n a u) = False" "url (replayed n a u) = u"
  by (simp_all add: replayed_def outgoing_fields dispatched_fields)

text \<open>
  The flag \<^verbatim>\<open>isRefreshing\<close> is up exactly while a handler is suspended at the refresh
  call, so there is never more than one such handler and \<open>driver\<close> loses nothing.
\<close>

lemma refresh_catch_flag:
  "\<not> isRefreshing (fst (refresh_catch w f)) \<and> driver (fst (refresh_catch w f)) = None"
  by (simp add: refresh_catch_def refresh_finally_def toast_error_def Let_def)

lemma on_rejected_flag_driver:
  assumes "isRefreshing w = (driver w \<noteq> None)"
  shows "isRefreshing (fst (on_rejected w e)) = (driver (fst (on_rejected w e)) \<noteq> None)"
proof (cases "err_response e")
  case None
  then show ?thesis
    using assms by (simp add: on_rejected_def toast_error_def)
next
  case (Some r)
  then show ?thesis
    using assms refresh_catch_flag [of "w\<lparr>isRefreshing := True\<rparr>" NoRefreshToken]
    by (auto simp: on_rejected_def Let_def split: option.splits)
qed

lemma step_flag_driver:
  assumes "isRefreshing w = (driver w \<noteq> None)"
  shows "isRefreshing (fst (step g w ev)) = (driver (fst (step g w ev)) \<noteq> None)"
proof (cases ev)
  case (Call cfg)
  then show ?thesis using assms by (simp add: api_def)
next
  case (Fulfilled res)
  then show ?thesis using assms by (simp add: on_fulfilled_def)
next
  case (Failed e)
  then show ?thesis using assms by (simp add: on_rejected_flag_driver)
next
  case (RefreshFulfilled d)
  show ?thesis
  proof (cases "driver w")
    case None
    then show ?thesis using assms RefreshFulfilled by simp
  next
    case (Some drv)
    then show ?thesis
      using RefreshFulfilled refresh_catch_flag [of w TypeError]
      by (cases d) (simp_all add: refresh_fulfilled_Some, simp add: refresh_fulfilled_def)
  qed
next
  case (RefreshRejected x)
  then show ?thesis
    using assms refresh_catch_flag [of w "RefreshFailure x"]
    by (cases "driver w") simp_all
qed

lemma run_flag_driver:
  "isRefreshing w = (driver w \<noteq> None) \<Longrightarrow>
     isRefreshing (fst (run g w evs)) = (driver (fst (run g w evs)) \<noteq> None)"
proof (induction evs arbitrary: w)
  case Nil
  then show ?case by simp
next
  case (Cons ev evs)
  have "isRefreshing (fst (step g w ev)) = (driver (fst (step g w ev)) \<noteq> None)"
    using Cons.prems by (rule step_flag_driver)
  then have "isRefreshing (fst (run g (fst (step g w ev)) evs))
               = (driver (fst (run g (fst (step g w ev)) evs)) \<noteq> None)"
    by (rule Cons.IH)
  then show ?case
    by (simp only: fst_run_Cons)
qed

subsection \<open>The request interceptor\<close>

lemma interceptor_trace_id: "headers (request_interceptor ls u cfg) ''X-Request-ID'' = Some u"
  by (simp add: request_interceptor_def set_header_def Let_def)

lemma api_fresh_ids: "fresh_ids g w \<Longrightarrow> fresh_ids g (api g w cfg)"
  by (simp add: fresh_ids_def trace_ids_def api_def outgoing_def interceptor_trace_id)

lemma fold_api_fresh_ids:
  "fresh_ids g w \<Longrightarrow> fresh_ids g (fold (\<lambda>cfg v. api g v cfg) cs w)"
  by (induction cs arbitrary: w) (simp_all add: api_fresh_ids)

lemma fresh_ids_frame:
  "sent v = sent w \<Longrightarrow> next_uuid v = next_uuid w \<Longrightarrow> fresh_ids g v = fresh_ids g w"
  by (simp add: fresh_ids_def trace_ids_def)

lemma refresh_catch_sent:
  "sent (fst (refresh_catch w f)) = sent w \<and> next_uuid (fst (refresh_catch w f)) = next_uuid w"
  by (simp add: refresh_catch_def refresh_finally_def toast_error_def Let_def)

lemma on_rejected_sent:
  "sent (fst (on_rejected w e)) = sent w \<and> next_uuid (fst (on_rejected w e)) = next_uuid w"
  by (simp add: on_rejected_def refresh_catch_sent toast_error_def Let_def
           split: option.splits)

lemma on_fulfilled_sent:
  "sent (fst (on_fulfilled w r)) = sent w \<and> next_uuid (fst (on_fulfilled w r)) = next_uuid w"
  by (simp add: on_fulfilled_def)

lemma refresh_fulfilled_fresh_ids:
  assumes "fresh_ids g w"
  shows "fresh_ids g (fst (refresh_fulfilled g w cfg d))"
proof (cases d)
  case None
  then show ?thesis
    using assms fresh_ids_frame [of "fst (refresh_catch w TypeError)" w g]
    by (simp add: refresh_fulfilled_def refresh_catch_sent)
next
  case (Some b)
  let ?w1 = "w\<lparr>localStorage :=
                 setItem (setItem (localStorage w) ''access_token'' (js_str (access_token b)))
                   ''refresh_token'' (js_str (refresh_token b)),
               defaults_headers :=
                 (defaults_headers w)(''Authorization'' \<mapsto> ''Bearer '' @ js_str (access_token b))\<rparr>"
  have 1: "fresh_ids g ?w1"
    using assms fresh_ids_frame [of ?w1 w g] by simp
  have 2: "fresh_ids g (fold (\<lambda>cfg v. api g v cfg) (pendingRequests ?w1) ?w1)"
    using 1 by (rule fold_api_fresh_ids)
  let ?w2 = "fold (\<lambda>cfg v. api g v cfg) (pendingRequests ?w1) ?w1"
  have 3: "fresh_ids g (?w2\<lparr>pendingRequests := []\<rparr>)"
    using 2 fresh_ids_frame [of "?w2\<lparr>pendingRequests := []\<rparr>" ?w2 g] by simp
  let ?w4 = "api g (?w2\<lparr>pendingRequests := []\<rparr>)
               (set_header cfg ''Authorization'' (''Bearer '' @ js_str (access_token b)))"
  have 4: "fresh_ids g ?w4"
    using 3 by (rule api_fresh_ids)
  have 5: "fresh_ids g (refresh_finally ?w4)"
    using 4 fresh_ids_frame [of "refresh_finally ?w4" ?w4 g]
    by (simp add: refresh_finally_def)
  show ?thesis
    using 5 Some by (simp add: refresh_fulfilled_def Let_def)
qed

lemma step_fresh_ids:
  assumes "fresh_ids g w"
  shows "fresh_ids g (fst (step g w ev))"
proof (cases ev)
  case (Call c)
  then show ?thesis using assms by (simp add: api_fresh_ids)
next
  case (Fulfilled r)
  then show ?thesis
    using assms fresh_ids_frame [of "fst (on_fulfilled w r)" w g] by (simp add: on_fulfilled_sent)
next
  case (Failed e)
  then show ?thesis
    using assms fresh_ids_frame [of "fst (on_rejected w e)" w g] by (simp add: on_rejected_sent)
next
  case (RefreshFulfilled d)
  then show ?thesis
    using assms by (simp add: refresh_fulfilled_fresh_ids split: option.splits)
next
  case (RefreshRejected x)
  then show ?thesis
    using assms fresh_ids_frame [of "fst (refresh_catch w (RefreshFailure x))" w g]
    by (simp add: refresh_catch_sent split: option.splits)
qed

lemma run_fresh_ids: "fresh_ids g w \<Longrightarrow> fresh_ids g (fst (run g w evs))"
proof (induction evs arbitrary: w)
  case Nil
  then show ?case by simp
next
  case (Cons ev evs)
  have "fresh_ids g (fst (step g w ev))"
    using Cons.prems by (rule step_fresh_ids)
  then have "fresh_ids g (fst (run g (fst (step g w ev)) evs))"
    by (rule Cons.IH)
  then show ?case
    by (simp only: fst_run_Cons)
qed

lemma fresh_ids_distinct: "inj g \<Longrightarrow> fresh_ids g w \<Longrightarrow> distinct (trace_ids w)"
  by (simp add: fresh_ids_def distinct_map inj_on_def inj_def)

text \<open>
  Claim C9 says that the \<^verbatim>\<open>Authorization\<close> header is attached exactly when an access
  token is present and \<^verbatim>\<open>X-Company-Id\<close> exactly when a scope id is present, on every
  dispatch, replays included. The interceptor only ever writes these two headers, it
  never deletes them: a request that was sent while a session was stored and is sent again
  after the store was cleared still carries both.
\<close>

theorem stale_header_counterexample:
  "\<not> (headers (last (sent (api uuid0 (fst (refresh_catch page0 NoRefreshToken))
              (dispatched 0 ''/a'')))) ''X-Company-Id'' \<noteq> None
       \<longleftrightarrow> present (getItem (localStorage (fst (refresh_catch page0 NoRefreshToken)))
             ''current_company_id''))
   \<and> \<not> (headers (last (sent (api uuid0 (fst (refresh_catch page0 NoRefreshToken))
              (dispatched 0 ''/a'')))) ''Authorization'' \<noteq> None
       \<longleftrightarrow> present (getItem (localStorage (fst (refresh_catch page0 NoRefreshToken)))
             ''access_token''))"
  by (simp add: sent_api outgoing_headers)
    (simp add: refresh_catch_def page0_fields refresh_finally_def toast_error_def getItem_def
       removeItem_def Let_def map_add_find_right dispatched_fields)

text \<open>
  A second way to a header without a token: line 457 writes the new
  \<^verbatim>\<open>Authorization\<close> into the instance defaults and the \<^verbatim>\<open>catch\<close> block never takes it
  out. After a renewal and a later teardown a request that carries no header of its own
  leaves with the \<^verbatim>\<open>Bearer\<close> of the last renewal although no token is stored.
\<close>

lemma stale_default_after_teardown:
  "headers (last (sent (fst (run uuid0 page0
      [Call (get_request ''/a''), Call (get_request ''/b''),
       Failed (failed_with 401 Undefined (dispatched 0 ''/a'')),
       renewed ''A2'' ''R2'',
       Failed (failed_with 401 Undefined (dispatched 1 ''/b'')),
       RefreshRejected (Some 400),
       Call (get_request ''/c'')])))) ''Authorization'' = Some ''Bearer A2''
   \<and> getItem (localStorage (fst (run uuid0 page0
      [Call (get_request ''/a''), Call (get_request ''/b''),
       Failed (failed_with 401 Undefined (dispatched 0 ''/a'')),
       renewed ''A2'' ''R2'',
       Failed (failed_with 401 Undefined (dispatched 1 ''/b'')),
       RefreshRejected (Some 400),
       Call (get_request ''/c'')]))) ''access_token'' = None"
  by (simp add: api_def on_rejected_def failed_with_def renewed_def refresh_fulfilled_def
        refresh_finally_def refresh_catch_def toast_error_def Let_def page0_fields
        outgoing_fields dispatched_fields outgoing_headers getItem_def setItem_def removeItem_def)
    (simp add: page0_def get_request_def)

text \<open>
  Claim C9, amended. For every request dispatched through \<^verbatim>\<open>api\<close> (the refresh call
  itself is made with the bare \<^verbatim>\<open>axios\<close> and passes no interceptor):
  \<^item> when a non-empty access token is stored the request leaves with
    \<^verbatim>\<open>Authorization: Bearer <token>\<close>, and when a non-empty scope id is stored it leaves with
    that \<^verbatim>\<open>X-Company-Id\<close>, whatever it carried before;
  \<^item> when the stored value is absent or empty the interceptor neither adds nor removes the
    header: a request that carries the header keeps it (a replay keeps that of its earlier
    attempt), and a request that carries none leaves without it when the instance defaults
    hold none;
  \<^item> \<^verbatim>\<open>X-Request-ID\<close> is always set to the value generated for this dispatch, whatever
    the request carried before;
  \<^item> nothing else changes: every other header is the request's own or else the instance
    default, and no other field of the request is touched;
  \<^item> when the generator never repeats a value, the ids of all requests sent in a run, first
    attempts and replays alike, are pairwise different.
\<close>

theorem request_header_contract:
  "(present (getItem (localStorage w) ''access_token'') \<longrightarrow>
      headers (last (sent (api g w cfg))) ''Authorization''
        = Some (''Bearer '' @ js_str (getItem (localStorage w) ''access_token'')))
   \<and> (\<not> present (getItem (localStorage w) ''access_token'')
        \<and> headers cfg ''Authorization'' = Some v \<longrightarrow>
      headers (last (sent (api g w cfg))) ''Authorization'' = Some v)
   \<and> (\<not> present (getItem (localStorage w) ''access_token'')
        \<and> headers cfg ''Authorization'' = None \<and> defaults_headers w ''Authorization'' = None \<longrightarrow>
      headers (last (sent (api g w cfg))) ''Authorization'' = None)
   \<and> (present (getItem (localStorage w) ''current_company_id'') \<longrightarrow>
      headers (last (sent (api g w cfg))) ''X-Company-Id''
        = Some (js_str (getItem (localStorage w) ''current_company_id'')))
   \<and> (\<not> present (getItem (localStorage w) ''current_company_id'')
        \<and> headers cfg ''X-Company-Id'' = Some v' \<longrightarrow>
      headers (last (sent (api g w cfg))) ''X-Company-Id'' = Some v')
   \<and> (\<not> present (getItem (localStorage w) ''current_company_id'')
        \<and> headers cfg ''X-Company-Id'' = None \<and> defaults_headers w ''X-Company-Id'' = None \<longrightarrow>
      headers (last (sent (api g w cfg))) ''X-Company-Id'' = None)
   \<and> headers (last (sent (api g w cfg))) ''X-Request-ID'' = Some (g (next_uuid w))
   \<and> headers (last (sent (api g w cfg))) |` (- {''Authorization'', ''X-Company-Id'', ''X-Request-ID''})
       = (defaults_headers w ++ headers cfg) |` (- {''Authorization'', ''X-Company-Id'', ''X-Request-ID''})
   \<and> descriptor (last (sent (api g w cfg))) = descriptor cfg
   \<and> (inj g \<longrightarrow> fresh_ids g w \<longrightarrow>
        fresh_ids g (fst (run g w evs)) \<and> distinct (trace_ids (fst (run g w evs))))"
proof -
  have l: "last (sent (api g w cfg))
             = outgoing (localStorage w) (defaults_headers w) (g (next_uuid w)) cfg"
    by (simp add: sent_api)
  have e: "inj g \<longrightarrow> fresh_ids g w \<longrightarrow>
        fresh_ids g (fst (run g w evs)) \<and> distinct (trace_ids (fst (run g w evs)))"
    using run_fresh_ids [of g w evs] fresh_ids_distinct [of g "fst (run g w evs)"] by blast
  show ?thesis
    unfolding l
    using e
    by (simp add: outgoing_headers outgoing_other_headers descriptor_outgoing map_add_find_right)
qed

theorem request_header_contract_witness:
  "present (getItem (localStorage page0) ''access_token'')
   \<and> headers (last (sent (api uuid0 page0 (get_request ''/a'')))) ''Authorization''
       = Some ''Bearer A1''
   \<and> \<not> present (getItem (localStorage (fst (refresh_catch page0 NoRefreshToken))) ''access_token'')
   \<and> headers (get_request ''/c'') ''Authorization'' = None
   \<and> defaults_headers (fst (refresh_catch page0 NoRefreshToken)) ''Authorization'' = None
   \<and> headers (last (sent (api uuid0 (fst (refresh_catch page0 NoRefreshToken))
        (get_request ''/c'')))) ''Authorization'' = None
   \<and> inj uuid0 \<and> fresh_ids uuid0 page0
   \<and> distinct (trace_ids (fst (run uuid0 page0
       [Call (get_request ''/a''), Failed (failed_with 401 Undefined (dispatched 0 ''/a'')),
        renewed ''A2'' ''R2''])))"
proof -
  let ?v = "fst (refresh_catch page0 NoRefreshToken)"
  have p: "present (getItem (localStorage page0) ''access_token'')"
    by (simp add: page0_fields getItem_def)
  have tok: "js_str (getItem (localStorage page0) ''access_token'') = ''A1''"
    by (simp add: page0_fields getItem_def)
  have n1: "\<not> present (getItem (localStorage ?v) ''access_token'')"
    by (simp add: refresh_catch_def refresh_finally_def toast_error_def getItem_def removeItem_def
          Let_def)
  have n2: "headers (get_request ''/c'') ''Authorization'' = None"
    by (simp add: get_request_def)
  have n3: "defaults_headers ?v ''Authorization'' = None"
    by (simp add: refresh_catch_def refresh_finally_def toast_error_def Let_def page0_def)
  have i: "inj uuid0"
    by (simp add: inj_def uuid0_def)
  have f: "fresh_ids uuid0 page0"
    by (simp add: fresh_ids_def trace_ids_def page0_fields)
  have c1: "headers (last (sent (api uuid0 page0 (get_request ''/a'')))) ''Authorization''
              = Some ''Bearer A1''"
    using p tok request_header_contract [where g = uuid0 and w = page0 and cfg = "get_request ''/a''"]
    by simp
  have c2: "headers (last (sent (api uuid0 ?v (get_request ''/c'')))) ''Authorization'' = None"
    using n1 n2 n3 request_header_contract [where g = uuid0 and w = ?v and cfg = "get_request ''/c''"]
    by blast
  have c3: "distinct (trace_ids (fst (run uuid0 page0
       [Call (get_request ''/a''), Failed (failed_with 401 Undefined (dispatched 0 ''/a'')),
        renewed ''A2'' ''R2''])))"
    using i f request_header_contract [where g = uuid0 and w = page0 and evs =
      "[Call (get_request ''/a''), Failed (failed_with 401 Undefined (dispatched 0 ''/a'')),
        renewed ''A2'' ''R2'']"]
    by blast
  show ?thesis
    using p n1 n2 n3 i f c1 c2 c3 by blast
qed

subsection \<open>The success handler\<close>

text \<open>
  Claim C10 says that a success notification is emitted if and only if the body contains
  a \<^verbatim>\<open>message\<close> field and the request is not silent. The handler tests the value, not
  the presence, of the field: a body whose \<^verbatim>\<open>message\<close> is the empty string has the
  field, the request is not silent, and nothing is notified.
\<close>

theorem empty_message_counterexample:
  "data_message (data \<lparr>status = 200, data = Some \<lparr>detail = Undefined, message = Str []\<rparr>,
                        res_config = get_request ''/a''\<rparr>) \<noteq> Undefined
   \<and> \<not> silent (res_config \<lparr>status = 200, data = Some \<lparr>detail = Undefined, message = Str []\<rparr>,
                        res_config = get_request ''/a''\<rparr>)
   \<and> step uuid0 page0
        (Fulfilled \<lparr>status = 200, data = Some \<lparr>detail = Undefined, message = Str []\<rparr>,
                    res_config = get_request ''/a''\<rparr>)
       = (page0, Returned \<lparr>status = 200, data = Some \<lparr>detail = Undefined, message = Str []\<rparr>,
                    res_config = get_request ''/a''\<rparr>)"
  by (simp add: on_fulfilled_def get_request_def)

text \<open>
  Claim C10, amended. A response that reaches the success handler is returned to the
  caller as it is. A success notification (shown for 3000 ms) is emitted if and only if
  the body has a truthy \<^verbatim>\<open>message\<close> (present and not empty) and the request's \<^verbatim>\<open>silent\<close>
  is falsy. Nothing else changes: the stored credentials, the refresh flag, the queue of
  waiters, the refresh calls made and the requests sent are what they were.
\<close>

theorem success_path_contract:
  "step g w (Fulfilled res) =
     (w\<lparr>toasts := toasts w @
          (if truthy (data_message (data res)) \<and> \<not> silent (res_config res)
           then [ToastSuccess (data_message (data res)) 3000] else [])\<rparr>,
      Returned res)
   \<and> localStorage (fst (step g w (Fulfilled res))) = localStorage w
   \<and> isRefreshing (fst (step g w (Fulfilled res))) = isRefreshing w
   \<and> pendingRequests (fst (step g w (Fulfilled res))) = pendingRequests w
   \<and> refresh_posts (fst (step g w (Fulfilled res))) = refresh_posts w
   \<and> sent (fst (step g w (Fulfilled res))) = sent w"
  by (simp add: on_fulfilled_def)

theorem success_path_contract_witness:
  "step uuid0 page0
     (Fulfilled \<lparr>status = 200, data = Some \<lparr>detail = Undefined, message = Str ''Saved''\<rparr>,
                 res_config = dispatched 0 ''/a''\<rparr>)
   = (page0\<lparr>toasts := [ToastSuccess (Str ''Saved'') 3000]\<rparr>,
      Returned \<lparr>status = 200, data = Some \<lparr>detail = Undefined, message = Str ''Saved''\<rparr>,
                res_config = dispatched 0 ''/a''\<rparr>)"
  using success_path_contract [of uuid0 page0
     "\<lparr>status = 200, data = Some \<lparr>detail = Undefined, message = Str ''Saved''\<rparr>,
       res_config = dispatched 0 ''/a''\<rparr>"]
  by (simp add: page0_def dispatched_def outgoing_def merge_defaults_def request_interceptor_def
        set_header_def get_request_def
        Let_def)

subsection \<open>The error handler: classification\<close>






text \<open>
  Outside the renewal path the handler reports what the switch gives and rejects with the
  error it was given; when the switch throws it reports nothing and the rejection is the
  \<^verbatim>\<open>TypeError\<close>.
\<close>

lemma on_rejected_switch:
  assumes "err_response e = Some r" and "status r \<noteq> 401 \<or> retry (err_config e)"
    and "status_switch (status r) (data r) = Some ts"
  shows "on_rejected w e = (w\<lparr>toasts := toasts w @ ts\<rparr>, Rejected (AxiosFailure e))"
  using assms by (auto simp: on_rejected_def Let_def)

lemma on_rejected_throw:
  assumes "err_response e = Some r" and "status r \<noteq> 401 \<or> retry (err_config e)"
    and "status_switch (status r) (data r) = None"
  shows "on_rejected w e = (w, Rejected TypeError)"
  using assms by (auto simp: on_rejected_def Let_def)

lemma on_rejected_other:
  assumes "\<not> expired e"
  shows "\<exists>ts f. on_rejected w e = (w\<lparr>toasts := toasts w @ ts\<rparr>, Rejected f)"
proof (cases "err_response e")
  case None
  then have "on_rejected w e =
      (w\<lparr>toasts := toasts w @ [ToastError (Str ''Network error. Please check your connection.'')]\<rparr>,
       Rejected (AxiosFailure e))"
    by (simp add: on_rejected_def toast_error_def)
  then show ?thesis by blast
next
  case (Some r)
  then have g: "status r \<noteq> 401 \<or> retry (err_config e)"
    using assms by (auto simp: expired_def)
  show ?thesis
  proof (cases "status_switch (status r) (data r)")
    case None
    then have "on_rejected w e = (w\<lparr>toasts := toasts w @ []\<rparr>, Rejected TypeError)"
      using on_rejected_throw [OF Some g] by simp
    then show ?thesis by blast
  next
    case (Some ts)
    then have "on_rejected w e = (w\<lparr>toasts := toasts w @ ts\<rparr>, Rejected (AxiosFailure e))"
      using on_rejected_switch [OF \<open>err_response e = Some r\<close> g] by simp
    then show ?thesis by blast
  qed
qed




subsection \<open>The error handler: failures other than an expired token\<close>




subsection \<open>The error handler: a 401 on a request that was already retried\<close>

text \<open>
  Claim C5 says that a 401 on an already retried request ends the session: the stored
  credentials are cleared and the page is sent to the login. The handler does neither: the
  401 error itself is what the caller's promise is rejected with, the location is not
  assigned and the refresh token is still stored.
\<close>

theorem retried_401_counterexample:
  "snd (on_rejected page0 (failed_with 401 Undefined ((dispatched 0 ''/a'')\<lparr>retry := True\<rparr>))) =
     Rejected (AxiosFailure (failed_with 401 Undefined ((dispatched 0 ''/a'')\<lparr>retry := True\<rparr>)))
   \<and> location_href (fst (on_rejected page0
        (failed_with 401 Undefined ((dispatched 0 ''/a'')\<lparr>retry := True\<rparr>)))) = None
   \<and> getItem (localStorage (fst (on_rejected page0
        (failed_with 401 Undefined ((dispatched 0 ''/a'')\<lparr>retry := True\<rparr>))))) ''refresh_token''
       = Some ''R1''"
  by (simp add: on_rejected_def failed_with_def status_switch_def page0_def
        getItem_def js_or_def Let_def)

text \<open>The three ways the handler takes on a 401 of a request not yet retried.\<close>

lemma on_rejected_driver:
  "\<not> isRefreshing w \<Longrightarrow> present (getItem (localStorage w) ''refresh_token'') \<Longrightarrow> expired e \<Longrightarrow>
     on_rejected w e =
       (w\<lparr>isRefreshing := True,
          refresh_posts := refresh_posts w @ [js_str (getItem (localStorage w) ''refresh_token'')],
          driver := Some ((err_config e)\<lparr>retry := True\<rparr>)\<rparr>, Suspended)"
  by (cases "err_response e") (simp_all add: on_rejected_def expired_def Let_def)

lemma on_rejected_waiter:
  "isRefreshing w \<Longrightarrow> expired e \<Longrightarrow>
     on_rejected w e = (w\<lparr>pendingRequests := pendingRequests w @ [err_config e]\<rparr>, Queued)"
  by (cases "err_response e") (simp_all add: on_rejected_def expired_def Let_def)

lemma on_rejected_no_token:
  "\<not> isRefreshing w \<Longrightarrow> \<not> present (getItem (localStorage w) ''refresh_token'') \<Longrightarrow> expired e \<Longrightarrow>
     on_rejected w e =
       (w\<lparr>localStorage :=
            removeItem (removeItem (removeItem (removeItem (localStorage w) ''access_token'')
              ''refresh_token'') ''user'') ''current_company_id'',
          location_href := Some ''/login'',
          toasts := toasts w @ [ToastError (Str ''Session expired. Please login again.'')],
          isRefreshing := False, driver := None\<rparr>,
        Rejected NoRefreshToken)"
  by (cases "err_response e")
    (simp_all add: on_rejected_def expired_def refresh_catch_def refresh_finally_def
       toast_error_def Let_def)

text \<open>
  Claim C5, amended. A 401 on a request already marked as retried starts no renewal and
  no teardown: the handler changes nothing but the notification log and rejects the
  caller's promise in that step; when the response has a body, it reports the server's
  \<^verbatim>\<open>detail\<close>, or \<^verbatim>\<open>An error occurred\<close>, and the rejection is the 401 error itself. A
  401 on a request not yet retried is never handed to the caller as such:
  \<^item> while a refresh call is in flight the request is queued behind it and nothing else
    changes;
  \<^item> with no refresh call in flight and a refresh token stored, the handler raises the
    flag, posts one refresh call with that token, marks the request and suspends;
  \<^item> with no refresh call in flight and no refresh token stored, the session is torn down
    (the four keys removed, the location set to the login, the expiry reported) and the
    promise is rejected with the refresh error.
\<close>

theorem retried_401_surfaces:
  assumes "err_response e = Some r" and "status r = 401"
  shows "(retry (err_config e) \<longrightarrow>
            (\<exists>ts f. on_rejected w e = (w\<lparr>toasts := toasts w @ ts\<rparr>, Rejected f)))
       \<and> (retry (err_config e) \<and> data r = Some b \<longrightarrow>
            on_rejected w e =
              (w\<lparr>toasts := toasts w @ [ToastError (js_or (detail b) (Str ''An error occurred''))]\<rparr>,
               Rejected (AxiosFailure e)))
       \<and> (\<not> retry (err_config e) \<and> isRefreshing w \<longrightarrow>
            on_rejected w e = (w\<lparr>pendingRequests := pendingRequests w @ [err_config e]\<rparr>, Queued))
       \<and> (\<not> retry (err_config e) \<and> \<not> isRefreshing w
            \<and> present (getItem (localStorage w) ''refresh_token'') \<longrightarrow>
            on_rejected w e =
              (w\<lparr>isRefreshing := True,
                 refresh_posts := refresh_posts w @ [js_str (getItem (localStorage w) ''refresh_token'')],
                 driver := Some ((err_config e)\<lparr>retry := True\<rparr>)\<rparr>, Suspended))
       \<and> (\<not> retry (err_config e) \<and> \<not> isRefreshing w
            \<and> \<not> present (getItem (localStorage w) ''refresh_token'') \<longrightarrow>
            on_rejected w e =
              (w\<lparr>localStorage :=
                   removeItem (removeItem (removeItem (removeItem (localStorage w) ''access_token'')
                     ''refresh_token'') ''user'') ''current_company_id'',
                 location_href := Some ''/login'',
                 toasts := toasts w @ [ToastError (Str ''Session expired. Please login again.'')],
                 isRefreshing := False, driver := None\<rparr>,
               Rejected NoRefreshToken))"
proof (intro conjI impI)
  assume "retry (err_config e)"
  then have "\<not> expired e"
    using assms by (simp add: expired_def)
  then show "\<exists>ts f. on_rejected w e = (w\<lparr>toasts := toasts w @ ts\<rparr>, Rejected f)"
    by (rule on_rejected_other)
next
  assume a: "retry (err_config e) \<and> data r = Some b"
  have "status_switch (status r) (data r)
          = Some [ToastError (js_or (detail b) (Str ''An error occurred''))]"
    using a assms(2) by (simp add: status_switch_def)
  then show "on_rejected w e =
              (w\<lparr>toasts := toasts w @ [ToastError (js_or (detail b) (Str ''An error occurred''))]\<rparr>,
               Rejected (AxiosFailure e))"
    using a assms(1) by (intro on_rejected_switch [of e r]) simp_all
next
  assume a: "\<not> retry (err_config e) \<and> isRefreshing w"
  then have "expired e"
    using assms by (simp add: expired_def)
  then show "on_rejected w e = (w\<lparr>pendingRequests := pendingRequests w @ [err_config e]\<rparr>, Queued)"
    using a by (simp add: on_rejected_waiter)
next
  assume a: "\<not> retry (err_config e) \<and> \<not> isRefreshing w
            \<and> present (getItem (localStorage w) ''refresh_token'')"
  then have "expired e"
    using assms by (simp add: expired_def)
  then show "on_rejected w e =
              (w\<lparr>isRefreshing := True,
                 refresh_posts := refresh_posts w @ [js_str (getItem (localStorage w) ''refresh_token'')],
                 driver := Some ((err_config e)\<lparr>retry := True\<rparr>)\<rparr>, Suspended)"
    using a by (simp add: on_rejected_driver)
next
  assume a: "\<not> retry (err_config e) \<and> \<not> isRefreshing w
            \<and> \<not> present (getItem (localStorage w) ''refresh_token'')"
  then have "expired e"
    using assms by (simp add: expired_def)
  then show "on_rejected w e =
              (w\<lparr>localStorage :=
                   removeItem (removeItem (removeItem (removeItem (localStorage w) ''access_token'')
                     ''refresh_token'') ''user'') ''current_company_id'',
                 location_href := Some ''/login'',
                 toasts := toasts w @ [ToastError (Str ''Session expired. Please login again.'')],
                 isRefreshing := False, driver := None\<rparr>,
               Rejected NoRefreshToken)"
    using a by (simp add: on_rejected_no_token)
qed

theorem retried_401_surfaces_witness:
  "err_response (failed_with 401 (Str ''Token expired'') ((dispatched 0 ''/a'')\<lparr>retry := True\<rparr>))
     = Some \<lparr>status = 401, data = Some \<lparr>detail = Str ''Token expired'', message = Undefined\<rparr>,
             res_config = (dispatched 0 ''/a'')\<lparr>retry := True\<rparr>\<rparr>
   \<and> retry (err_config (failed_with 401 (Str ''Token expired'') ((dispatched 0 ''/a'')\<lparr>retry := True\<rparr>)))
   \<and> on_rejected page0 (failed_with 401 (Str ''Token expired'') ((dispatched 0 ''/a'')\<lparr>retry := True\<rparr>))
       = (page0\<lparr>toasts := toasts page0 @ [ToastError (Str ''Token expired'')]\<rparr>,
          Rejected (AxiosFailure
            (failed_with 401 (Str ''Token expired'') ((dispatched 0 ''/a'')\<lparr>retry := True\<rparr>))))
   \<and> err_response (failed_with 401 Undefined (dispatched 1 ''/b''))
     = Some \<lparr>status = 401, data = Some \<lparr>detail = Undefined, message = Undefined\<rparr>,
             res_config = dispatched 1 ''/b''\<rparr>
   \<and> \<not> retry (err_config (failed_with 401 Undefined (dispatched 1 ''/b'')))
   \<and> \<not> isRefreshing page0 \<and> present (getItem (localStorage page0) ''refresh_token'')
   \<and> snd (on_rejected page0 (failed_with 401 Undefined (dispatched 1 ''/b''))) = Suspended"
proof -
  let ?e = "failed_with 401 (Str ''Token expired'') ((dispatched 0 ''/a'')\<lparr>retry := True\<rparr>)"
  let ?b = "\<lparr>detail = Str ''Token expired'', message = Undefined\<rparr>"
  let ?r = "\<lparr>status = 401, data = Some ?b, res_config = (dispatched 0 ''/a'')\<lparr>retry := True\<rparr>\<rparr>"
  let ?e2 = "failed_with 401 Undefined (dispatched 1 ''/b'')"
  let ?r2 = "\<lparr>status = 401, data = Some \<lparr>detail = Undefined, message = Undefined\<rparr>,
              res_config = dispatched 1 ''/b''\<rparr>"
  have h1: "err_response ?e = Some ?r"
    by (simp add: failed_with_def)
  have h2: "status ?r = 401"
    by simp
  have h3: "retry (err_config ?e)"
    by (simp add: failed_with_def)
  have h4: "data ?r = Some ?b"
    by simp
  have "on_rejected page0 ?e =
          (page0\<lparr>toasts := toasts page0 @ [ToastError (js_or (detail ?b) (Str ''An error occurred''))]\<rparr>,
           Rejected (AxiosFailure ?e))"
    using retried_401_surfaces [OF h1 h2, where b = ?b and w = page0] h3 h4 by blast
  then have c1: "on_rejected page0 ?e =
          (page0\<lparr>toasts := toasts page0 @ [ToastError (Str ''Token expired'')]\<rparr>,
           Rejected (AxiosFailure ?e))"
    by (simp add: js_or_def)
  have g1: "err_response ?e2 = Some ?r2"
    by (simp add: failed_with_def)
  have g2: "status ?r2 = 401"
    by simp
  have g3: "\<not> retry (err_config ?e2)"
    by (simp add: failed_with_def dispatched_fields)
  have g4: "\<not> isRefreshing page0"
    by (simp add: page0_fields)
  have g5: "present (getItem (localStorage page0) ''refresh_token'')"
    by (simp add: page0_fields getItem_def)
  have "on_rejected page0 ?e2 =
          (page0\<lparr>isRefreshing := True,
             refresh_posts := refresh_posts page0 @ [js_str (getItem (localStorage page0) ''refresh_token'')],
             driver := Some ((err_config ?e2)\<lparr>retry := True\<rparr>)\<rparr>, Suspended)"
    using retried_401_surfaces [OF g1 g2, where w = page0] g3 g4 g5 by blast
  then have c2: "snd (on_rejected page0 ?e2) = Suspended"
    by (simp only: snd_conv)
  show ?thesis
    using h1 h3 c1 g1 g3 g4 g5 c2 by blast
qed

subsection \<open>Renewal: one refresh call while one is in flight\<close>









subsection \<open>Renewal: a fulfilled refresh call\<close>

text \<open>
  Claim C4 says that the waiters, the driver included, are resolved in the order in which
  they came, and that every replay carries the new access token. Of three requests whose
  401s are handled in the order \<open>/a\<close>, \<open>/b\<close>, \<open>/c\<close>, the first, which drives the renewal,
  is sent again last. And when the refresh call returns an empty access token, the
  replay of a queued request still carries the old one.
\<close>

theorem driver_replayed_last_counterexample:
  "map url (drop 3 (sent (fst (run uuid0 page0
      [Call (get_request ''/a''), Call (get_request ''/b''), Call (get_request ''/c''),
       Failed (failed_with 401 Undefined (dispatched 0 ''/a'')),
       Failed (failed_with 401 Undefined (dispatched 1 ''/b'')),
       Failed (failed_with 401 Undefined (dispatched 2 ''/c'')),
       renewed ''A2'' ''R2''])))) = [''/b'', ''/c'', ''/a'']
   \<and> headers (sent (fst (run uuid0 page0
      [Call (get_request ''/a''), Call (get_request ''/b''),
       Failed (failed_with 401 Undefined (dispatched 0 ''/a'')),
       Failed (failed_with 401 Undefined (dispatched 1 ''/b'')),
       renewed [] ''R2''])) ! 2) ''Authorization'' = Some ''Bearer A1''"
  by (simp add: api_def on_rejected_def failed_with_def renewed_def refresh_fulfilled_def
        refresh_finally_def Let_def page0_fields outgoing_fields dispatched_fields
        outgoing_headers getItem_def setItem_def map_add_find_right)

text \<open>
  Claim C4, amended. When the refresh call in flight is fulfilled with a pair
  \<open>{access_token = a, refresh_token = r}\<close> whose access token is not empty, one step
  stores both tokens (no state holds one without the other) and leaves every other key of
  the store alone; it sends the queued requests again in the order in which they were
  queued and then the driver's request, each unchanged apart from its headers and each
  with \<^verbatim>\<open>Authorization: Bearer a\<close>; it empties the queue, lowers the flag and makes no
  refresh call.
\<close>

theorem renewal_success_postcondition:
  assumes "driver w = Some drv" and "a \<noteq> []"
  shows "snd (step g w (renewed a r)) = Redispatched
       \<and> localStorage (fst (step g w (renewed a r)))
           = (localStorage w)(''access_token'' \<mapsto> a, ''refresh_token'' \<mapsto> r)
       \<and> map descriptor (drop (length (sent w)) (sent (fst (step g w (renewed a r)))))
           = map descriptor (pendingRequests w @ [drv])
       \<and> list_all (\<lambda>c. headers c ''Authorization'' = Some (''Bearer '' @ a))
           (drop (length (sent w)) (sent (fst (step g w (renewed a r)))))
       \<and> pendingRequests (fst (step g w (renewed a r))) = []
       \<and> \<not> isRefreshing (fst (step g w (renewed a r)))
       \<and> refresh_posts (fst (step g w (renewed a r))) = refresh_posts w"
proof -
  let ?b = "\<lparr>access_token = Some a, refresh_token = Some r\<rparr>"
  have stp: "step g w (renewed a r) = refresh_fulfilled g w drv (Some ?b)"
    using assms(1) by (simp add: renewed_def)
  have store: "localStorage (fst (refresh_fulfilled g w drv (Some ?b)))
           = (localStorage w)(''access_token'' \<mapsto> a, ''refresh_token'' \<mapsto> r)"
    unfolding refresh_fulfilled_Some by (simp add: setItem_def)
  show ?thesis
    unfolding stp
    using store refresh_fulfilled_replays [of w g drv ?b]
      refresh_fulfilled_bearer [OF assms(2), of w g drv r]
      refresh_fulfilled_frame [of g w drv ?b]
    by simp
qed

theorem renewal_success_postcondition_witness:
  "driver (fst (run uuid0 page0
      [Call (get_request ''/a''), Call (get_request ''/b''), Call (get_request ''/c''),
       Failed (failed_with 401 Undefined (dispatched 0 ''/a'')),
       Failed (failed_with 401 Undefined (dispatched 1 ''/b'')),
       Failed (failed_with 401 Undefined (dispatched 2 ''/c''))]))
     = Some ((dispatched 0 ''/a'')\<lparr>retry := True\<rparr>)
   \<and> ''A2'' \<noteq> []
   \<and> refresh_posts (fst (step uuid0 (fst (run uuid0 page0
      [Call (get_request ''/a''), Call (get_request ''/b''), Call (get_request ''/c''),
       Failed (failed_with 401 Undefined (dispatched 0 ''/a'')),
       Failed (failed_with 401 Undefined (dispatched 1 ''/b'')),
       Failed (failed_with 401 Undefined (dispatched 2 ''/c''))])) (renewed ''A2'' ''R2'')))
     = [''R1'']
   \<and> list_all (\<lambda>c. headers c ''Authorization'' = Some ''Bearer A2'')
       (drop 3 (sent (fst (step uuid0 (fst (run uuid0 page0
      [Call (get_request ''/a''), Call (get_request ''/b''), Call (get_request ''/c''),
       Failed (failed_with 401 Undefined (dispatched 0 ''/a'')),
       Failed (failed_with 401 Undefined (dispatched 1 ''/b'')),
       Failed (failed_with 401 Undefined (dispatched 2 ''/c''))])) (renewed ''A2'' ''R2'')))))
   \<and> getItem (localStorage (fst (step uuid0 (fst (run uuid0 page0
      [Call (get_request ''/a''), Call (get_request ''/b''), Call (get_request ''/c''),
       Failed (failed_with 401 Undefined (dispatched 0 ''/a'')),
       Failed (failed_with 401 Undefined (dispatched 1 ''/b'')),
       Failed (failed_with 401 Undefined (dispatched 2 ''/c''))])) (renewed ''A2'' ''R2''))))
       ''access_token'' = Some ''A2''
   \<and> getItem (localStorage (fst (step uuid0 (fst (run uuid0 page0
      [Call (get_request ''/a''), Call (get_request ''/b''), Call (get_request ''/c''),
       Failed (failed_with 401 Undefined (dispatched 0 ''/a'')),
       Failed (failed_with 401 Undefined (dispatched 1 ''/b'')),
       Failed (failed_with 401 Undefined (dispatched 2 ''/c''))])) (renewed ''A2'' ''R2''))))
       ''refresh_token'' = Some ''R2''"
proof -
  define wq where "wq = fst (run uuid0 page0
      [Call (get_request ''/a''), Call (get_request ''/b''), Call (get_request ''/c''),
       Failed (failed_with 401 Undefined (dispatched 0 ''/a'')),
       Failed (failed_with 401 Undefined (dispatched 1 ''/b'')),
       Failed (failed_with 401 Undefined (dispatched 2 ''/c''))])"
  note ev = api_def on_rejected_def failed_with_def Let_def page0_fields outgoing_fields
    dispatched_fields getItem_def
  have h1: "driver wq = Some ((dispatched 0 ''/a'')\<lparr>retry := True\<rparr>)"
    unfolding wq_def by (simp add: ev)
  have h2: "''A2'' \<noteq> []"
    by simp
  have len: "length (sent wq) = 3"
    unfolding wq_def by (simp add: ev)
  have posts: "refresh_posts wq = [''R1'']"
    unfolding wq_def by (simp add: ev)
  note t = renewal_success_postcondition [OF h1 h2, of uuid0 "''R2''"]
  have c1: "refresh_posts (fst (step uuid0 wq (renewed ''A2'' ''R2''))) = [''R1'']"
    using t posts by simp
  have c2: "list_all (\<lambda>c. headers c ''Authorization'' = Some ''Bearer A2'')
       (drop 3 (sent (fst (step uuid0 wq (renewed ''A2'' ''R2'')))))"
    using t len by simp
  have c3: "getItem (localStorage (fst (step uuid0 wq (renewed ''A2'' ''R2'')))) ''access_token''
              = Some ''A2''"
    using t by (simp add: getItem_def)
  have c4: "getItem (localStorage (fst (step uuid0 wq (renewed ''A2'' ''R2'')))) ''refresh_token''
              = Some ''R2''"
    using t by (simp add: getItem_def)
  show ?thesis
    using h1 h2 c1 c2 c3 c4 unfolding wq_def by blast
qed

subsection \<open>Renewal: a rejected refresh call\<close>

lemma refresh_catch_keeps_queue:
  "pendingRequests (fst (refresh_catch w f)) = pendingRequests w
   \<and> snd (refresh_catch w f) = Rejected f"
  by (simp add: refresh_catch_def refresh_finally_def toast_error_def Let_def)

text \<open>
  Claim C2: when the refresh call fails, every waiter queued during that renewal is
  rejected with the same terminal failure, no waiter is left unresolved, and the stored
  credentials are gone. The \<^verbatim>\<open>catch\<close> block clears the store and rejects the driver's
  promise, but it never touches \<^verbatim>\<open>pendingRequests\<close>, and a queued callback can only
  resolve its promise. Two requests receive a 401, the second is queued behind the
  renewal started by the first, and the refresh call is answered with 400: the driver is
  rejected, the waiter is still in the queue, neither resolved nor rejected, and both
  tokens are removed.
\<close>

theorem failed_renewal_strands_waiter:
  "snd (run uuid0 page0
      [Call (get_request ''/a''), Call (get_request ''/b''),
       Failed (failed_with 401 Undefined (dispatched 0 ''/a'')),
       Failed (failed_with 401 Undefined (dispatched 1 ''/b'')),
       RefreshRejected (Some 400)])
     = [Dispatched, Dispatched, Suspended, Queued, Rejected (RefreshFailure (Some 400))]
   \<and> map url (pendingRequests (fst (run uuid0 page0
      [Call (get_request ''/a''), Call (get_request ''/b''),
       Failed (failed_with 401 Undefined (dispatched 0 ''/a'')),
       Failed (failed_with 401 Undefined (dispatched 1 ''/b'')),
       RefreshRejected (Some 400)]))) = [''/b'']
   \<and> getItem (localStorage (fst (run uuid0 page0
      [Call (get_request ''/a''), Call (get_request ''/b''),
       Failed (failed_with 401 Undefined (dispatched 0 ''/a'')),
       Failed (failed_with 401 Undefined (dispatched 1 ''/b'')),
       RefreshRejected (Some 400)]))) ''access_token'' = None
   \<and> getItem (localStorage (fst (run uuid0 page0
      [Call (get_request ''/a''), Call (get_request ''/b''),
       Failed (failed_with 401 Undefined (dispatched 0 ''/a'')),
       Failed (failed_with 401 Undefined (dispatched 1 ''/b'')),
       RefreshRejected (Some 400)]))) ''refresh_token'' = None"
  by (simp add: api_def on_rejected_def failed_with_def renewed_def refresh_fulfilled_def
        refresh_finally_def refresh_catch_def toast_error_def Let_def page0_fields
        outgoing_fields dispatched_fields getItem_def setItem_def removeItem_def)

subsection \<open>Renewal: the mark on a replayed request\<close>

text \<open>
  Claim C3: a request is replayed at most once, and a replay that receives a 401 again is
  not renewed and retried a second time, for the driver and for every queued waiter alike.
  The handler marks the driver's request before the refresh call, but a queued request
  is replayed as it was queued, unmarked. Two requests receive a 401 and the second is
  queued; after the renewal both are sent again, and the replay of the queued one has
  \<open>retry = False\<close>. When that replay receives a 401, the handler posts a second refresh
  call, and after it the request is sent a third time.
\<close>

theorem waiter_replay_renews_again:
  "sent (fst (run uuid0 page0
      [Call (get_request ''/a''), Call (get_request ''/b''),
       Failed (failed_with 401 Undefined (dispatched 0 ''/a'')),
       Failed (failed_with 401 Undefined (dispatched 1 ''/b'')),
       renewed ''A2'' ''R2''])) ! 2 = replayed 2 ''A2'' ''/b''
   \<and> retry (replayed 2 ''A2'' ''/b'') = False
   \<and> snd (run uuid0 page0
      [Call (get_request ''/a''), Call (get_request ''/b''),
       Failed (failed_with 401 Undefined (dispatched 0 ''/a'')),
       Failed (failed_with 401 Undefined (dispatched 1 ''/b'')),
       renewed ''A2'' ''R2'',
       Failed (failed_with 401 Undefined (replayed 2 ''A2'' ''/b'')),
       renewed ''A3'' ''R3''])
     = [Dispatched, Dispatched, Suspended, Queued, Redispatched, Suspended, Redispatched]
   \<and> refresh_posts (fst (run uuid0 page0
      [Call (get_request ''/a''), Call (get_request ''/b''),
       Failed (failed_with 401 Undefined (dispatched 0 ''/a'')),
       Failed (failed_with 401 Undefined (dispatched 1 ''/b'')),
       renewed ''A2'' ''R2'',
       Failed (failed_with 401 Undefined (replayed 2 ''A2'' ''/b'')),
       renewed ''A3'' ''R3''])) = [''R1'', ''R2'']
   \<and> map url (sent (fst (run uuid0 page0
      [Call (get_request ''/a''), Call (get_request ''/b''),
       Failed (failed_with 401 Undefined (dispatched 0 ''/a'')),
       Failed (failed_with 401 Undefined (dispatched 1 ''/b'')),
       renewed ''A2'' ''R2'',
       Failed (failed_with 401 Undefined (replayed 2 ''A2'' ''/b'')),
       renewed ''A3'' ''R3'']))) = [''/a'', ''/b'', ''/b'', ''/a'', ''/b'']"
proof -
  note rr = replayed_fields
  have first: "sent (fst (run uuid0 page0
      [Call (get_request ''/a''), Call (get_request ''/b''),
       Failed (failed_with 401 Undefined (dispatched 0 ''/a'')),
       Failed (failed_with 401 Undefined (dispatched 1 ''/b'')),
       renewed ''A2'' ''R2''])) ! 2 = replayed 2 ''A2'' ''/b''"
    by (simp add: api_def on_rejected_def failed_with_def renewed_def refresh_fulfilled_def
        refresh_finally_def Let_def page0_fields outgoing_fields dispatched_fields
        getItem_def setItem_def)
      (simp add: replayed_def outgoing_def request_interceptor_def page0_fields getItem_def
        Let_def numeral_2_eq_2)
  have rest: "snd (run uuid0 page0
      [Call (get_request ''/a''), Call (get_request ''/b''),
       Failed (failed_with 401 Undefined (dispatched 0 ''/a'')),
       Failed (failed_with 401 Undefined (dispatched 1 ''/b'')),
       renewed ''A2'' ''R2'',
       Failed (failed_with 401 Undefined (replayed 2 ''A2'' ''/b'')),
       renewed ''A3'' ''R3''])
     = [Dispatched, Dispatched, Suspended, Queued, Redispatched, Suspended, Redispatched]
   \<and> refresh_posts (fst (run uuid0 page0
      [Call (get_request ''/a''), Call (get_request ''/b''),
       Failed (failed_with 401 Undefined (dispatched 0 ''/a'')),
       Failed (failed_with 401 Undefined (dispatched 1 ''/b'')),
       renewed ''A2'' ''R2'',
       Failed (failed_with 401 Undefined (replayed 2 ''A2'' ''/b'')),
       renewed ''A3'' ''R3''])) = [''R1'', ''R2'']
   \<and> map url (sent (fst (run uuid0 page0
      [Call (get_request ''/a''), Call (get_request ''/b''),
       Failed (failed_with 401 Undefined (dispatched 0 ''/a'')),
       Failed (failed_with 401 Undefined (dispatched 1 ''/b'')),
       renewed ''A2'' ''R2'',
       Failed (failed_with 401 Undefined (replayed 2 ''A2'' ''/b'')),
       renewed ''A3'' ''R3'']))) = [''/a'', ''/b'', ''/b'', ''/a'', ''/b'']"
    by (simp add: api_def on_rejected_def failed_with_def renewed_def refresh_fulfilled_def
        refresh_finally_def Let_def page0_fields outgoing_fields dispatched_fields rr
        getItem_def setItem_def)
  show ?thesis
    using first rest rr(1) [of 2 "''A2''" "''/b''"] by blast
qed

subsection \<open>After a failed renewal\<close>

lemma refresh_catch_signed_out: "signed_out (fst (refresh_catch w f))"
  by (simp add: signed_out_def refresh_catch_def refresh_finally_def toast_error_def getItem_def
        removeItem_def Let_def)

lemma refresh_catch_posts: "refresh_posts (fst (refresh_catch w f)) = refresh_posts w"
  by (simp add: refresh_catch_def refresh_finally_def toast_error_def Let_def)

lemma api_signed_out: "signed_out (api g w cfg) = signed_out w"
  by (simp add: signed_out_def api_def)

lemma on_rejected_signed_out:
  assumes "signed_out w"
  shows "signed_out (fst (on_rejected w e)) \<and> refresh_posts (fst (on_rejected w e)) = refresh_posts w
         \<and> (\<exists>f. snd (on_rejected w e) = Rejected f)"
proof -
  have a: "signed_out (fst (refresh_catch (w\<lparr>isRefreshing := True\<rparr>) NoRefreshToken))"
    by (simp add: refresh_catch_signed_out)
  have b: "refresh_posts (fst (refresh_catch (w\<lparr>isRefreshing := True\<rparr>) NoRefreshToken)) = refresh_posts w"
    by (simp add: refresh_catch_posts)
  have c: "snd (refresh_catch (w\<lparr>isRefreshing := True\<rparr>) NoRefreshToken) = Rejected NoRefreshToken"
    by (simp add: refresh_catch_def Let_def)
  show ?thesis
    using assms a b c
    by (auto simp: on_rejected_def signed_out_def toast_error_def Let_def split: option.splits)
qed

lemma step_signed_out:
  assumes "signed_out w"
  shows "signed_out (fst (step g w ev)) \<and> refresh_posts (fst (step g w ev)) = refresh_posts w
         \<and> fails_fast ev (snd (step g w ev))"
proof (cases ev)
  case (Call cfg)
  then show ?thesis using assms by (simp add: api_signed_out) (simp add: api_def)
next
  case (Fulfilled res)
  then show ?thesis using assms by (simp add: on_fulfilled_def signed_out_def)
next
  case (Failed e)
  then show ?thesis using on_rejected_signed_out [OF assms, of e] by auto
next
  case (RefreshFulfilled d)
  then show ?thesis using assms by (simp add: signed_out_def)
next
  case (RefreshRejected x)
  then show ?thesis using assms by (simp add: signed_out_def)
qed

lemma run_signed_out:
  "signed_out w \<Longrightarrow>
     signed_out (fst (run g w evs)) \<and> refresh_posts (fst (run g w evs)) = refresh_posts w
     \<and> list_all2 fails_fast evs (snd (run g w evs))"
proof (induction evs arbitrary: w)
  case Nil
  then show ?case by simp
next
  case (Cons ev evs)
  have s: "signed_out (fst (step g w ev)) \<and> refresh_posts (fst (step g w ev)) = refresh_posts w
         \<and> fails_fast ev (snd (step g w ev))"
    using Cons.prems by (rule step_signed_out)
  then have "signed_out (fst (run g (fst (step g w ev)) evs))
     \<and> refresh_posts (fst (run g (fst (step g w ev)) evs)) = refresh_posts (fst (step g w ev))
     \<and> list_all2 fails_fast evs (snd (run g (fst (step g w ev)) evs))"
    using Cons.IH by blast
  with s show ?case
    by (simp only: fst_run_Cons snd_run_Cons list_all2_Cons)
qed

text \<open>
  Claim C7. The \<^verbatim>\<open>catch\<close> block of a failed renewal leaves the page with no refresh
  token stored and no refresh call in flight. From there on, whatever happens (new
  requests, successful responses, failures of any status, stray refresh answers; a login
  is not among the events), no refresh call is ever posted, the handler of every failed
  request rejects its promise in the very step that handles the failure, without
  suspending or queueing, and the page stays without a refresh token.
\<close>

theorem unauthenticated_fast_fail:
  "signed_out (fst (refresh_catch w cause))
   \<and> refresh_posts (fst (run g (fst (refresh_catch w cause)) evs)) = refresh_posts w
   \<and> list_all2 fails_fast evs (snd (run g (fst (refresh_catch w cause)) evs))
   \<and> signed_out (fst (run g (fst (refresh_catch w cause)) evs))"
  using run_signed_out [of "fst (refresh_catch w cause)" g evs]
  by (simp add: refresh_catch_signed_out refresh_catch_posts)

theorem unauthenticated_fast_fail_witness:
  "snd (run uuid0 (fst (refresh_catch page0 (RefreshFailure (Some 400))))
      [Call (get_request ''/a''), Failed (failed_with 401 Undefined (dispatched 0 ''/a''))])
     = [Dispatched, Rejected NoRefreshToken]
   \<and> refresh_posts (fst (run uuid0 (fst (refresh_catch page0 (RefreshFailure (Some 400))))
      [Call (get_request ''/a''), Failed (failed_with 401 Undefined (dispatched 0 ''/a''))]))
     = refresh_posts page0"
proof -
  have "snd (run uuid0 (fst (refresh_catch page0 (RefreshFailure (Some 400))))
      [Call (get_request ''/a''), Failed (failed_with 401 Undefined (dispatched 0 ''/a''))])
     = [Dispatched, Rejected NoRefreshToken]"
    by (simp add: api_def on_rejected_def failed_with_def refresh_catch_def refresh_finally_def
        toast_error_def Let_def page0_fields outgoing_fields dispatched_fields getItem_def
        removeItem_def)
  then show ?thesis
    using unauthenticated_fast_fail [of page0 "RefreshFailure (Some 400)" uuid0
      "[Call (get_request ''/a''), Failed (failed_with 401 Undefined (dispatched 0 ''/a''))]"]
    by blast
qed

end
